theory Spec2Isabelle
  imports Complex_Main
begin

section \<open>The SE(3) space-mouse controller\<close>

text \<open>
  A shallow embedding of \<^verbatim>\<open>Se3SpaceMouse\<close> from
  \<^verbatim>\<open>isaaclab/devices/spacemouse/se3_spacemouse.py\<close>. The object is a record,
  every method takes the object and returns the updated one, and every exception the
  Python can raise is a value of \<open>error\<close> on the left of a sum.

  Python floats are read as real numbers. The statements below use products with the
  sensitivities and the literal zero only; none of them relies on rounding.
\<close>

subsection \<open>Data\<close>

datatype error = IndexError | KeyError | ValueError

text \<open>
  Modelled from the spec: the raw device sample that the base class keeps in
  \<^verbatim>\<open>self._state\<close> (its class is declared in \<^verbatim>\<open>base_spacemouse.py\<close>, which is not
  part of the sources). The spec gives it six axes (three translations, three rotations)
  and two buttons (left, right). Both are Python sequences, read by index and by slice,
  so they are lists here and a sample of another length is still a value of the type.
\<close>

record raw_device_state =
  axes :: "real list"
  buttons :: "bool list"

record se3_spacemouse =
  pos_sensitivity :: real
  rot_sensitivity :: real
  read_rotation :: bool
  close_gripper :: bool
  delta_pos :: "real list"
  delta_rot :: "real list"
  state :: raw_device_state

text \<open>
  The registered callbacks (\<^verbatim>\<open>self._additional_callbacks\<close>, a dictionary of the base
  class). A callback is a Python callable; were it called it could change the object, so
  it is a function on the object.
\<close>

type_synonym callback = "se3_spacemouse \<Rightarrow> se3_spacemouse"

type_synonym callbacks = "string \<rightharpoonup> callback"

subsection \<open>Python and numpy primitives\<close>

definition zeros :: "nat \<Rightarrow> real list" where
  "zeros n = replicate n 0"

text \<open>\<^verbatim>\<open>k * v\<close> for a float \<open>k\<close> and an array \<open>v\<close>: every element is multiplied.\<close>

definition scale :: "real \<Rightarrow> real list \<Rightarrow> real list" where
  "scale k v = map (\<lambda>x. k * x) v"

text \<open>\<^verbatim>\<open>xs[i]\<close> for a constant index \<open>i \<ge> 0\<close>: IndexError out of range.\<close>

definition index :: "'a list \<Rightarrow> nat \<Rightarrow> error + 'a" where
  "index xs i = (if i < length xs then Inr (xs ! i) else Inl IndexError)"

text \<open>\<^verbatim>\<open>d[k]\<close> on a dictionary: KeyError when the key is absent.\<close>

definition lookup :: "('k \<rightharpoonup> 'v) \<Rightarrow> 'k \<Rightarrow> error + 'v" where
  "lookup d k = (case d k of None \<Rightarrow> Inl KeyError | Some v \<Rightarrow> Inr v)"

text \<open>Sequencing of statements that may raise: the first exception ends the run.\<close>

definition bind :: "error + 'a \<Rightarrow> ('a \<Rightarrow> error + 'b) \<Rightarrow> error + 'b" where
  "bind m f = (case m of Inl e \<Rightarrow> Inl e | Inr x \<Rightarrow> f x)"

subsection \<open>Public methods\<close>

text \<open>
  \<^verbatim>\<open>__init__\<close>. The base-class constructor is not in the sources; the sample it leaves
  in \<^verbatim>\<open>self._state\<close> is the parameter \<open>st\<close>.
\<close>

definition init :: "real \<Rightarrow> real \<Rightarrow> raw_device_state \<Rightarrow> se3_spacemouse" where
  "init pos_sens rot_sens st =
     \<lparr>pos_sensitivity = pos_sens, rot_sensitivity = rot_sens,
      read_rotation = False, close_gripper = False,
      delta_pos = zeros 3, delta_rot = zeros 3, state = st\<rparr>"

text \<open>\<^verbatim>\<open>reset\<close>: three assignments, none of which can raise.\<close>

definition reset :: "se3_spacemouse \<Rightarrow> se3_spacemouse" where
  "reset s = s\<lparr>close_gripper := False, delta_pos := zeros 3, delta_rot := zeros 3\<rparr>"

text \<open>
  \<^verbatim>\<open>advance\<close>. The conversion \<^verbatim>\<open>Rotation.from_euler("XYZ", v).as_rotvec()\<close> belongs to
  scipy, not to this repository: it is the parameter \<open>as_rotvec\<close>, which may raise
  (scipy rejects an angle array of the wrong shape). \<^verbatim>\<open>np.concatenate\<close> of two flat
  arrays is list append. The object is returned beside the result, so that what
  \<^verbatim>\<open>advance\<close> does to it can be stated.
\<close>

definition advance ::
  "(real list \<Rightarrow> error + real list) \<Rightarrow> se3_spacemouse
     \<Rightarrow> error + ((real list \<times> bool) \<times> se3_spacemouse)" where
  "advance as_rotvec s =
     bind (as_rotvec (delta_rot s))
       (\<lambda>rot_vec. Inr ((delta_pos s @ rot_vec, close_gripper s), s))"

subsection \<open>Internal helpers\<close>

text \<open>\<^verbatim>\<open>_process_twist_command\<close>: \<^verbatim>\<open>twist[:3]\<close> and \<^verbatim>\<open>twist[3:]\<close> never raise.\<close>

definition process_twist_command :: "se3_spacemouse \<Rightarrow> real list \<Rightarrow> se3_spacemouse" where
  "process_twist_command s twist =
     s\<lparr>delta_pos := scale (pos_sensitivity s) (take 3 twist),
       delta_rot := scale (rot_sensitivity s) (drop 3 twist)\<rparr>"

text \<open>
  Modelled from the spec: \<^verbatim>\<open>_read_mouse_state\<close> of the base class, absent from the
  sources. The device layer supplies one sample per poll tick, here the argument
  \<open>raw\<close>, and the method stores it in \<^verbatim>\<open>self._state\<close>.
\<close>

definition read_mouse_state :: "se3_spacemouse \<Rightarrow> raw_device_state \<Rightarrow> se3_spacemouse" where
  "read_mouse_state s raw = s\<lparr>state := raw\<rparr>"

text \<open>
  Modelled from the spec: \<^verbatim>\<open>_transform_state_to_twist\<close> of the base class, absent
  from the sources. The spec computes the deltas from \<^verbatim>\<open>raw.axes\<close> directly, so the
  twist of a sample is its six axes.
\<close>

definition transform_state_to_twist :: "raw_device_state \<Rightarrow> real list" where
  "transform_state_to_twist st = axes st"

text \<open>
  The three button tests of \<^verbatim>\<open>_listen_for_updates\<close>, with Python's short-circuit
  \<^verbatim>\<open>and\<close>: the second index is read only when the first operand is true.
\<close>

definition left_and_not_right :: "bool list \<Rightarrow> error + bool" where
  "left_and_not_right bs =
     bind (index bs 0) (\<lambda>b0. if b0 then bind (index bs 1) (\<lambda>b1. Inr (\<not> b1)) else Inr False)"

definition right_and_not_left :: "bool list \<Rightarrow> error + bool" where
  "right_and_not_left bs =
     bind (index bs 1) (\<lambda>b1. if b1 then bind (index bs 0) (\<lambda>b0. Inr (\<not> b0)) else Inr False)"

definition left_and_right :: "bool list \<Rightarrow> error + bool" where
  "left_and_right bs =
     bind (index bs 0) (\<lambda>b0. if b0 then index bs 1 else Inr False)"

text \<open>
  The statement \<^verbatim>\<open>self._additional_callbacks[k]\<close> under its guard
  \<^verbatim>\<open>if k in self._additional_callbacks\<close>: the dictionary is read and the value is
  dropped (the source has no call parentheses), so the object goes on as it is.
\<close>

definition run_additional_callbacks :: "callbacks \<Rightarrow> string \<Rightarrow> se3_spacemouse \<Rightarrow> error + se3_spacemouse" where
  "run_additional_callbacks cbs k s =
     (if cbs k \<noteq> None then bind (lookup cbs k) (\<lambda>cb. Inr s) else Inr s)"

text \<open>
  \<^verbatim>\<open>_listen_for_updates\<close>, one poll tick. \<^verbatim>\<open>_start_timer\<close> belongs to the absent
  base class; the spec leaves the timer to an external collaborator, so it changes no
  field here. An exception ends the tick with the error (the object it leaves behind is
  not part of the result); the statements below are about ticks that return.
\<close>

definition listen_for_updates ::
  "callbacks \<Rightarrow> se3_spacemouse \<Rightarrow> raw_device_state \<Rightarrow> error + se3_spacemouse" where
  "listen_for_updates cbs s0 raw =
     (let s = read_mouse_state s0 raw in
      bind
        (bind (left_and_not_right (buttons (state s))) (\<lambda>c1.
           if c1 then
             run_additional_callbacks cbs ''L'' (s\<lparr>close_gripper := \<not> close_gripper s\<rparr>)
           else bind (right_and_not_left (buttons (state s))) (\<lambda>c2.
             if c2 then
               run_additional_callbacks cbs ''R'' (reset s)
             else bind (left_and_right (buttons (state s))) (\<lambda>c3.
               if c3 then Inr (s\<lparr>read_rotation := \<not> read_rotation s\<rparr>)
               else Inr s))))
        (\<lambda>s'. Inr (process_twist_command s' (transform_state_to_twist (state s')))))"

text \<open>
  The polling loop: the timer calls \<^verbatim>\<open>_listen_for_updates\<close> once per interval; a run
  over a finite sequence of samples is the fold of the tick over it.
\<close>

fun poll :: "callbacks \<Rightarrow> se3_spacemouse \<Rightarrow> raw_device_state list \<Rightarrow> error + se3_spacemouse" where
  "poll cbs s [] = Inr s"
| "poll cbs s (raw # raws) = bind (listen_for_updates cbs s raw) (\<lambda>s'. poll cbs s' raws)"

subsection \<open>Concrete samples and a freshly constructed device\<close>

definition sample_idle :: raw_device_state where
  "sample_idle = \<lparr>axes = [0, 0, 0, 0, 0, 0], buttons = [False, False]\<rparr>"

definition sample_left :: raw_device_state where
  "sample_left = \<lparr>axes = [0, 0, 0, 0, 0, 0], buttons = [True, False]\<rparr>"

definition sample_right_pushed :: raw_device_state where
  "sample_right_pushed = \<lparr>axes = [1, 0, 0, 0, 0, 1], buttons = [False, True]\<rparr>"

definition sample_both :: raw_device_state where
  "sample_both = \<lparr>axes = [0, 0, 0, 0, 0, 0], buttons = [True, True]\<rparr>"

definition sample_push_x :: raw_device_state where
  "sample_push_x = \<lparr>axes = [1, 0, 0, 0, 0, 0], buttons = [False, False]\<rparr>"

text \<open>The constructor's defaults: \<^verbatim>\<open>pos_sensitivity=0.4\<close>, \<^verbatim>\<open>rot_sensitivity=0.8\<close>.\<close>

definition fresh :: se3_spacemouse where
  "fresh = init (4 / 10) (8 / 10) sample_idle"

section \<open>Properties\<close>

subsection \<open>Auxiliary facts\<close>

lemma bind_Inr [simp]: "bind (Inr x) f = f x"
  by (simp add: bind_def)

lemma bind_Inl [simp]: "bind (Inl e) f = Inl e"
  by (simp add: bind_def)

lemma zeros_3: "zeros 3 = [0, 0, 0]"
  by (simp add: zeros_def numeral_3_eq_3)

lemma zeros_6: "zeros 6 = [0, 0, 0, 0, 0, 0]"
  by (simp add: zeros_def eval_nat_numeral)

lemma scale_zeros: "scale k (zeros n) = zeros n"
  by (simp add: scale_def zeros_def)

lemmas samples = sample_idle_def sample_left_def sample_right_pushed_def sample_both_def
  sample_push_x_def fresh_def init_def zeros_3 zeros_6

text \<open>The guarded dictionary read returns the object it was given, for every dictionary.\<close>

lemma run_additional_callbacks_id: "run_additional_callbacks cbs k s = Inr s"
  by (cases "cbs k") (simp_all add: run_additional_callbacks_def lookup_def)

text \<open>With two buttons in the sample no index is out of range.\<close>

lemma button_tests:
  assumes "2 \<le> length bs"
  shows "left_and_not_right bs = Inr (bs ! 0 \<and> \<not> bs ! 1)"
    and "right_and_not_left bs = Inr (bs ! 1 \<and> \<not> bs ! 0)"
    and "left_and_right bs = Inr (bs ! 0 \<and> bs ! 1)"
  using assms
  by (auto simp add: left_and_not_right_def right_and_not_left_def left_and_right_def index_def)

text \<open>A sample without two buttons ends the tick with IndexError.\<close>

lemma listen_for_updates_raises:
  assumes "length (buttons raw) < 2"
  shows "listen_for_updates cbs s raw = Inl IndexError"
  using assms
  by (cases "buttons raw")
    (auto simp add: Let_def listen_for_updates_def read_mouse_state_def
      left_and_not_right_def right_and_not_left_def left_and_right_def index_def)

text \<open>One tick on a sample with its two buttons: the branch taken, then the twist.\<close>

lemma listen_for_updates_returns:
  assumes "2 \<le> length (buttons raw)"
  shows "listen_for_updates cbs s raw =
     Inr (process_twist_command
            (if buttons raw ! 0 \<and> \<not> buttons raw ! 1
               then s\<lparr>state := raw, close_gripper := \<not> close_gripper s\<rparr>
             else if buttons raw ! 1 \<and> \<not> buttons raw ! 0
               then reset (s\<lparr>state := raw\<rparr>)
             else if buttons raw ! 0 \<and> buttons raw ! 1
               then s\<lparr>state := raw, read_rotation := \<not> read_rotation s\<rparr>
             else s\<lparr>state := raw\<rparr>)
            (axes raw))"
  using assms
  by (simp add: listen_for_updates_def read_mouse_state_def button_tests Let_def
      run_additional_callbacks_id transform_state_to_twist_def reset_def
      process_twist_command_def)

lemma close_gripper_step:
  assumes "2 \<le> length (buttons raw)"
  shows "\<exists>s'. listen_for_updates cbs s raw = Inr s' \<and>
     close_gripper s' =
       (if buttons raw ! 0 \<and> \<not> buttons raw ! 1 then \<not> close_gripper s
        else if buttons raw ! 1 \<and> \<not> buttons raw ! 0 then False
        else close_gripper s)"
  using assms by (simp add: listen_for_updates_returns process_twist_command_def reset_def)

lemma poll_append:
  "poll cbs s (xs @ ys) = bind (poll cbs s xs) (\<lambda>s'. poll cbs s' ys)"
  by (induction xs arbitrary: s) (simp_all add: bind_def split: sum.splits)

text \<open>Every tick of a held left button toggles the flag: the parity of the run decides.\<close>

lemma poll_held:
  assumes "\<forall>r \<in> set held. buttons r = [True, False]"
  shows "\<exists>s'. poll cbs s held = Inr s' \<and>
     close_gripper s' = (if odd (length held) then \<not> close_gripper s else close_gripper s)"
  using assms
proof (induction held arbitrary: s)
  case Nil
  then show ?case by simp
next
  case (Cons r held)
  from Cons.prems have r: "buttons r = [True, False]" by simp
  then obtain s1 where s1: "listen_for_updates cbs s r = Inr s1"
    and g1: "close_gripper s1 = (\<not> close_gripper s)"
    using close_gripper_step [of r cbs s] by auto
  from Cons.prems have "\<forall>r \<in> set held. buttons r = [True, False]" by simp
  from Cons.IH [OF this, of s1] obtain s' where "poll cbs s1 held = Inr s'"
    and "close_gripper s' = (if odd (length held) then \<not> close_gripper s1 else close_gripper s1)"
    by blast
  with s1 g1 show ?case by auto
qed

text \<open>What \<^verbatim>\<open>advance\<close> returns when the library conversion returns.\<close>

lemma advance_returns:
  "as_rotvec (delta_rot s) = Inr rot_vec \<Longrightarrow>
   advance as_rotvec s = Inr ((delta_pos s @ rot_vec, close_gripper s), s)"
  by (simp add: advance_def)

text \<open>An exception of the library conversion is the exception of \<^verbatim>\<open>advance\<close>.\<close>

lemma advance_raises:
  "as_rotvec (delta_rot s) = Inl e \<Longrightarrow> advance as_rotvec s = Inl e"
  by (simp add: advance_def)

subsection \<open>The gripper toggle\<close>

text \<open>
  C1, as the code has it. The object keeps no earlier button state, so the test of
  \<^verbatim>\<open>_listen_for_updates\<close> is on the level of the buttons, not on an edge. On a freshly
  constructed device one tick with the left button down closes the gripper, a second tick
  with the button still down (no rising edge) opens it again, and a release after the
  two ticks leaves it open: the press was toggled twice, not exactly once.
\<close>

theorem held_left_button_toggles_again:
  "poll Map.empty fresh [sample_left] =
     Inr (fresh\<lparr>close_gripper := True, state := sample_left\<rparr>) \<and>
   poll Map.empty fresh [sample_left, sample_left] =
     Inr (fresh\<lparr>close_gripper := False, state := sample_left\<rparr>) \<and>
   poll Map.empty fresh [sample_left, sample_left, sample_idle] =
     Inr (fresh\<lparr>close_gripper := False\<rparr>)"
  by (simp add: samples listen_for_updates_returns process_twist_command_def scale_def)

text \<open>
  C1, amended: \<^verbatim>\<open>close_gripper\<close> is toggled on every poll tick whose sample has the left
  button pressed and the right button not pressed; a right-only tick sets it false and
  any other tick keeps it. Hence a left-only press held for \<open>n\<close> ticks and then released
  leaves it toggled exactly when \<open>n\<close> is odd: toggled once for a press of one tick,
  toggled again by every further tick with the button held.
\<close>

theorem close_gripper_level_triggered:
  "(2 \<le> length (buttons raw) \<longrightarrow>
      (\<exists>s'. listen_for_updates cbs s raw = Inr s' \<and>
         close_gripper s' =
           (if buttons raw ! 0 \<and> \<not> buttons raw ! 1 then \<not> close_gripper s
            else if buttons raw ! 1 \<and> \<not> buttons raw ! 0 then False
            else close_gripper s))) \<and>
   ((\<forall>r \<in> set held. buttons r = [True, False]) \<and> buttons rel = [False, False] \<longrightarrow>
      (\<exists>s'. poll cbs t (held @ [rel]) = Inr s' \<and>
         close_gripper s' = (if odd (length held) then \<not> close_gripper t else close_gripper t)))"
proof (intro conjI impI)
  assume "2 \<le> length (buttons raw)"
  from close_gripper_step [OF this, of cbs s]
  show "\<exists>s'. listen_for_updates cbs s raw = Inr s' \<and>
         close_gripper s' =
           (if buttons raw ! 0 \<and> \<not> buttons raw ! 1 then \<not> close_gripper s
            else if buttons raw ! 1 \<and> \<not> buttons raw ! 0 then False
            else close_gripper s)"
    by blast
next
  assume a: "(\<forall>r \<in> set held. buttons r = [True, False]) \<and> buttons rel = [False, False]"
  then obtain s1 where s1: "poll cbs t held = Inr s1"
    and g1: "close_gripper s1 = (if odd (length held) then \<not> close_gripper t else close_gripper t)"
    using poll_held [of held cbs t] by blast
  from a obtain s2 where s2: "listen_for_updates cbs s1 rel = Inr s2"
    and g2: "close_gripper s2 = close_gripper s1"
    using close_gripper_step [of rel cbs s1] by auto
  from s1 s2 have "poll cbs t (held @ [rel]) = Inr s2"
    by (simp add: poll_append)
  with g1 g2 show "\<exists>s'. poll cbs t (held @ [rel]) = Inr s' \<and>
         close_gripper s' = (if odd (length held) then \<not> close_gripper t else close_gripper t)"
    by simp
qed

theorem close_gripper_level_triggered_witness:
  "(\<exists>s'. listen_for_updates Map.empty fresh sample_left = Inr s' \<and> close_gripper s' = True) \<and>
   (\<exists>s'. poll Map.empty fresh [sample_left, sample_idle] = Inr s' \<and> close_gripper s' = True)"
  using close_gripper_level_triggered
    [of sample_left Map.empty fresh "[sample_left]" sample_idle fresh]
  by (simp add: samples)

subsection \<open>The right button\<close>

text \<open>
  C2, as the code has it. After \<^verbatim>\<open>reset\<close> the tick goes on to
  \<^verbatim>\<open>_process_twist_command\<close>, which assigns both deltas from the sample. A right-only
  tick with the cap pushed along x and twisted about z leaves the gripper flag false but
  the deltas \<open>[0.4, 0, 0]\<close> and \<open>[0, 0, 0.8]\<close>, not zero.
\<close>

theorem right_only_tick_keeps_scaled_axes:
  "listen_for_updates Map.empty (fresh\<lparr>close_gripper := True\<rparr>) sample_right_pushed =
     Inr (fresh\<lparr>delta_pos := [4 / 10, 0, 0], delta_rot := [0, 0, 8 / 10],
               state := sample_right_pushed\<rparr>) \<and>
   [4 / 10, 0, 0] \<noteq> zeros 3 \<and> [0, 0, 8 / 10] \<noteq> zeros 3"
  by (simp add: samples listen_for_updates_returns process_twist_command_def scale_def
      reset_def)

text \<open>
  C2, amended: after a poll tick in which the right button is pressed and the left
  button is not, \<^verbatim>\<open>close_gripper\<close> is false, and \<^verbatim>\<open>delta_pos\<close> and \<^verbatim>\<open>delta_rot\<close> are
  the sensitivity-scaled axes of that tick's sample; they are the zero 3-vectors when
  the axes of the sample are all zero.
\<close>

theorem right_only_tick:
  assumes "2 \<le> length (buttons raw)" and "buttons raw ! 1" and "\<not> buttons raw ! 0"
  shows "\<exists>s'. listen_for_updates cbs s raw = Inr s' \<and>
     close_gripper s' = False \<and>
     delta_pos s' = scale (pos_sensitivity s) (take 3 (axes raw)) \<and>
     delta_rot s' = scale (rot_sensitivity s) (drop 3 (axes raw)) \<and>
     (axes raw = zeros 6 \<longrightarrow> delta_pos s' = zeros 3 \<and> delta_rot s' = zeros 3)"
  using assms
  by (simp add: listen_for_updates_returns process_twist_command_def reset_def scale_def
      zeros_3 zeros_6)

theorem right_only_tick_witness:
  "\<exists>s'. listen_for_updates Map.empty (fresh\<lparr>close_gripper := True, delta_pos := [1, 2, 3]\<rparr>)
           \<lparr>axes = zeros 6, buttons = [False, True]\<rparr> = Inr s' \<and>
     close_gripper s' = False \<and> delta_pos s' = zeros 3 \<and> delta_rot s' = zeros 3"
  using right_only_tick [of "\<lparr>axes = zeros 6, buttons = [False, True]\<rparr>" Map.empty
      "fresh\<lparr>close_gripper := True, delta_pos := [1, 2, 3]\<rparr>"]
  by (auto simp add: scale_zeros)

subsection \<open>The deltas\<close>

text \<open>
  C3: for every sample with six axes and two buttons and every prior object, after the
  tick \<^verbatim>\<open>delta_pos\<close> is \<^verbatim>\<open>pos_sensitivity\<close> times \<^verbatim>\<open>axes[0:3]\<close> and \<^verbatim>\<open>delta_rot\<close> is
  \<^verbatim>\<open>rot_sensitivity\<close> times \<^verbatim>\<open>axes[3:6]\<close>; the earlier deltas do not enter the result.
  For the axes \<open>[1,0,0,0,0,0]\<close> and the sensitivity \<open>0.4\<close> the position delta is
  \<open>[0.4, 0, 0]\<close>.
\<close>

theorem tick_overwrites_deltas:
  assumes "length (axes raw) = 6" and "length (buttons raw) = 2"
  shows "\<exists>s'. listen_for_updates cbs s raw = Inr s' \<and>
     delta_pos s' = scale (pos_sensitivity s) (take 3 (axes raw)) \<and>
     delta_rot s' = scale (rot_sensitivity s) (take 3 (drop 3 (axes raw))) \<and>
     (axes raw = [1, 0, 0, 0, 0, 0] \<and> pos_sensitivity s = 4 / 10 \<longrightarrow>
        delta_pos s' = [4 / 10, 0, 0])"
  using assms
  by (simp add: listen_for_updates_returns process_twist_command_def reset_def scale_def)

theorem tick_overwrites_deltas_witness:
  "\<exists>s'. listen_for_updates Map.empty (fresh\<lparr>delta_pos := [1, 2, 3], delta_rot := [4, 5, 6]\<rparr>)
           sample_push_x = Inr s' \<and>
     delta_pos s' = [4 / 10, 0, 0] \<and> delta_rot s' = [0, 0, 0]"
  using tick_overwrites_deltas [of sample_push_x Map.empty
      "fresh\<lparr>delta_pos := [1, 2, 3], delta_rot := [4, 5, 6]\<rparr>"]
  by (auto simp add: samples scale_def)

subsection \<open>Reset\<close>

text \<open>
  C5: after \<^verbatim>\<open>reset\<close> the gripper flag is false and both deltas are the zero
  3-vector, whatever the object was. \<^verbatim>\<open>reset\<close> has no failing branch (it is a total
  function of the object), and it leaves the sensitivities, the rotation flag and the
  stored sample as they were.
\<close>

theorem reset_clears:
  "close_gripper (reset s) = False \<and>
   delta_pos (reset s) = [0, 0, 0] \<and>
   delta_rot (reset s) = [0, 0, 0] \<and>
   reset s = s\<lparr>close_gripper := False, delta_pos := [0, 0, 0], delta_rot := [0, 0, 0]\<rparr>"
  by (simp add: reset_def zeros_3)

subsection \<open>Advance\<close>



text \<open>
  C6: whenever \<^verbatim>\<open>advance\<close> returns, the object it leaves is the object it was called
  on, field for field.
\<close>

theorem advance_pure_read:
  "advance as_rotvec s = Inr (out, s') \<Longrightarrow> s' = s"
  by (auto simp add: advance_def bind_def split: sum.splits)

theorem advance_pure_read_witness:
  "advance (\<lambda>v. Inr v) fresh = Inr ((zeros 6, False), fresh)"
proof -
  have "advance (\<lambda>v. Inr v) fresh = Inr ((zeros 6, False), fresh\<lparr>close_gripper := False\<rparr>)"
    by (simp add: advance_def samples)
  from this advance_pure_read [OF this] show ?thesis by simp
qed

text \<open>
  C7, as the code has it. The button branch runs whatever the axes are: on a freshly
  constructed device a tick whose axes are all zero and whose left button is pressed
  changes \<^verbatim>\<open>close_gripper\<close> from false to true.
\<close>

theorem zero_axes_left_press_toggles:
  "listen_for_updates Map.empty fresh sample_left =
     Inr (fresh\<lparr>close_gripper := True, state := sample_left\<rparr>) \<and>
   axes sample_left = zeros 6 \<and> close_gripper fresh = False"
  by (simp add: samples listen_for_updates_returns process_twist_command_def scale_def)

text \<open>
  C7, amended: for every object reached by a poll tick whose raw axes are all zero,
  \<^verbatim>\<open>advance\<close> returns the zero 6-vector (the rotation library taking zero Euler angles
  to the zero rotation vector), and \<^verbatim>\<open>close_gripper\<close> is unchanged from its value before
  the tick when neither button or both buttons are pressed on that tick.
\<close>

theorem zero_axes_tick:
  assumes "axes raw = zeros 6" and "2 \<le> length (buttons raw)"
    and "as_rotvec (zeros 3) = Inr (zeros 3)"
  shows "\<exists>s'. listen_for_updates cbs s raw = Inr s' \<and>
     advance as_rotvec s' = Inr ((zeros 6, close_gripper s'), s') \<and>
     (buttons raw ! 0 = buttons raw ! 1 \<longrightarrow> close_gripper s' = close_gripper s)"
  using assms
  by (auto simp add: listen_for_updates_returns process_twist_command_def reset_def scale_def
      zeros_3 zeros_6 advance_def)

theorem zero_axes_tick_witness:
  "\<exists>s'. listen_for_updates Map.empty (fresh\<lparr>close_gripper := True, delta_pos := [1, 2, 3]\<rparr>)
           sample_both = Inr s' \<and>
     advance (\<lambda>v. if v = zeros 3 then Inr (zeros 3) else Inl ValueError) s' =
       Inr ((zeros 6, True), s')"
  using zero_axes_tick
    [of sample_both "\<lambda>v. if v = zeros 3 then Inr (zeros 3) else Inl ValueError" Map.empty
      "fresh\<lparr>close_gripper := True, delta_pos := [1, 2, 3]\<rparr>"]
  by (auto simp add: samples)

text \<open>
  C9: two objects that differ in \<^verbatim>\<open>read_rotation\<close> only get the same answer from
  \<^verbatim>\<open>advance\<close>: the same pose delta and gripper flag, or the same error of the library.
\<close>

theorem advance_ignores_read_rotation:
  "map_sum id fst (advance as_rotvec (s\<lparr>read_rotation := b\<rparr>)) =
   map_sum id fst (advance as_rotvec s)"
  by (simp add: advance_def bind_def split: sum.splits)

subsection \<open>Both buttons, and the callbacks\<close>

text \<open>
  C8: a poll tick with both buttons pressed toggles \<^verbatim>\<open>read_rotation\<close>; the object after
  the tick has the gripper flag it had before (no toggle, and no reset, which would have
  cleared it), the new sample, and the deltas of that sample.
\<close>

theorem both_buttons_toggle_read_rotation:
  assumes "2 \<le> length (buttons raw)" and "buttons raw ! 0" and "buttons raw ! 1"
  shows "listen_for_updates cbs s raw =
     Inr (s\<lparr>read_rotation := \<not> read_rotation s,
            delta_pos := scale (pos_sensitivity s) (take 3 (axes raw)),
            delta_rot := scale (rot_sensitivity s) (drop 3 (axes raw)),
            state := raw\<rparr>)"
  using assms
  by (simp add: listen_for_updates_returns process_twist_command_def)

theorem both_buttons_toggle_read_rotation_witness:
  "listen_for_updates Map.empty (fresh\<lparr>close_gripper := True\<rparr>) sample_both =
     Inr (fresh\<lparr>read_rotation := True, close_gripper := True, state := sample_both\<rparr>)"
  using both_buttons_toggle_read_rotation
    [of sample_both Map.empty "fresh\<lparr>close_gripper := True\<rparr>"]
  by (simp add: samples scale_def)

text \<open>
  C10: the result of a poll tick is the same for every dictionary of callbacks, in
  particular with and without an entry under \<open>L\<close> or \<open>R\<close>: the entry is read and
  dropped, never applied, so the guarded read hands back the object unchanged.
\<close>

theorem callbacks_never_invoked:
  "listen_for_updates cbs s raw = listen_for_updates Map.empty s raw \<and>
   run_additional_callbacks cbs k s = Inr s"
  by (simp add: listen_for_updates_def run_additional_callbacks_id cong: if_cong)

end
